theory Spec2Isabelle
  imports Main
begin

section \<open>Multi-storage service (multiStorageService.ts)\<close>

text \<open>
  The service keeps one logical key/value pair in three browser stores: \<open>localStorage\<close>,
  the cookie jar behind \<open>document.cookie\<close>, and one IndexedDB object store. The three
  engines are external; each is modelled as a map from keys to strings. The module
  variable \<open>dbPromise\<close> caches the outcome of \<open>indexedDB.open\<close>: \<open>None\<close> before the first
  use, \<open>Some True\<close> once the connection resolved, \<open>Some False\<close> once it was rejected
  (a rejected promise stays rejected for the lifetime of the page).

  A JavaScript value of type \<open>string | null\<close> is a \<open>string option\<close>. The source tests
  values with \<open>if (value)\<close>, which is false for \<open>null\<close> and for the empty string.
\<close>

definition truthy :: "string option \<Rightarrow> bool" where
  "truthy v = (case v of None \<Rightarrow> False | Some s \<Rightarrow> s \<noteq> [])"

record storage =
  localStorage :: "string \<rightharpoonup> string"
  cookie :: "string \<rightharpoonup> string"
  indexedDB :: "string \<rightharpoonup> string"
  dbPromise :: "bool option"

text \<open>
  What the environment does to one operation: every place where the source has a
  \<open>try\<close>/\<open>catch\<close> around a store access, or an \<open>onerror\<close> handler, is a flag here.
  \<open>cookie_set_fails\<close> and \<open>cookie_delete_fails\<close> cover both an exception inside
  \<open>setCookie\<close>/\<open>deleteCookie\<close> (caught there) and a write the browser drops silently.
  \<open>idb_open_fails\<close> is the \<open>onerror\<close> of \<open>indexedDB.open\<close>; the three request flags are
  the \<open>onerror\<close> of \<open>store.put\<close>, \<open>store.get\<close>, \<open>store.delete\<close> (or an exception thrown
  by \<open>db.transaction\<close> inside the promise executor, which rejects the same promise).
\<close>

record faults =
  ls_get_throws :: bool
  ls_set_throws :: bool
  ls_remove_throws :: bool
  cookie_get_throws :: bool
  cookie_set_fails :: bool
  cookie_delete_fails :: bool
  idb_open_fails :: bool
  idb_put_errors :: bool
  idb_get_errors :: bool
  idb_delete_errors :: bool

definition no_faults :: faults where
  "no_faults = \<lparr>ls_get_throws = False, ls_set_throws = False, ls_remove_throws = False,
     cookie_get_throws = False, cookie_set_fails = False, cookie_delete_fails = False,
     idb_open_fails = False, idb_put_errors = False, idb_get_errors = False,
     idb_delete_errors = False\<rparr>"

datatype error =
  StorageException | IDBRequestError | NetworkError | NotConfigured | GoogleLoadTimeout

subsection \<open>localStorage\<close>

definition getItem :: "faults \<Rightarrow> string \<Rightarrow> storage \<Rightarrow> error + string option" where
  "getItem f key s = (if ls_get_throws f then Inl StorageException else Inr (localStorage s key))"

definition setItem :: "faults \<Rightarrow> string \<Rightarrow> string \<Rightarrow> storage \<Rightarrow> error + storage" where
  "setItem f key v s =
     (if ls_set_throws f then Inl StorageException
      else Inr (s\<lparr>localStorage := (localStorage s)(key \<mapsto> v)\<rparr>))"

definition removeItem :: "faults \<Rightarrow> string \<Rightarrow> storage \<Rightarrow> error + storage" where
  "removeItem f key s =
     (if ls_remove_throws f then Inl StorageException
      else Inr (s\<lparr>localStorage := (localStorage s)(key := None)\<rparr>))"

subsection \<open>Cookies\<close>

text \<open>
  \<open>setCookie\<close> assigns \<open>name=value;expires=...;path=/;SameSite=Lax\<close> with an expiry in the
  future, which stores the pair (also when the value is empty); \<open>deleteCookie\<close> assigns an
  expiry in the past, which removes it; \<open>getCookie\<close> returns the value of the cookie whose
  text starts with \<open>name=\<close>, or \<open>null\<close>. \<open>encodeURIComponent\<close> and \<open>decodeURIComponent\<close>
  are inverse on the strings that reach the jar and are not modelled. All three functions
  catch their own exceptions.
\<close>

definition setCookie :: "faults \<Rightarrow> string \<Rightarrow> string \<Rightarrow> storage \<Rightarrow> storage" where
  "setCookie f key v s =
     (if cookie_set_fails f then s else s\<lparr>cookie := (cookie s)(key \<mapsto> v)\<rparr>)"

definition getCookie :: "faults \<Rightarrow> string \<Rightarrow> storage \<Rightarrow> string option" where
  "getCookie f key s = (if cookie_get_throws f then None else cookie s key)"

definition deleteCookie :: "faults \<Rightarrow> string \<Rightarrow> storage \<Rightarrow> storage" where
  "deleteCookie f key s =
     (if cookie_delete_fails f then s else s\<lparr>cookie := (cookie s)(key := None)\<rparr>)"

subsection \<open>IndexedDB\<close>

text \<open>
  \<open>getDB\<close> returns the cached promise, creating it on first use. The three accessors are
  \<open>async\<close> functions of the shape
  \<^verbatim>\<open>try { const db = await getDB(); return new Promise(...) } catch (e) { warn }\<close>.
  The \<open>await\<close> of a rejected \<open>getDB()\<close> throws inside the \<open>try\<close> and is caught: the
  function then resolves (to \<open>undefined\<close>, or to \<open>null\<close> for the getter). The request
  promise, however, is returned without \<open>await\<close>: the function has left the \<open>try\<close> block
  when that promise settles, so its rejection is not caught and becomes the rejection of
  the accessor's own promise. That is the \<open>Inl IDBRequestError\<close> branch.
\<close>

definition getDB :: "faults \<Rightarrow> storage \<Rightarrow> bool \<times> storage" where
  "getDB f s =
     (case dbPromise s of
        Some opened \<Rightarrow> (opened, s)
      | None \<Rightarrow> (\<not> idb_open_fails f, s\<lparr>dbPromise := Some (\<not> idb_open_fails f)\<rparr>))"

definition setIndexedDB :: "faults \<Rightarrow> string \<Rightarrow> string \<Rightarrow> storage \<Rightarrow> (error + unit) \<times> storage" where
  "setIndexedDB f key v s =
     (case getDB f s of (opened, s1) \<Rightarrow>
        if \<not> opened then (Inr (), s1)
        else if idb_put_errors f then (Inl IDBRequestError, s1)
        else (Inr (), s1\<lparr>indexedDB := (indexedDB s1)(key \<mapsto> v)\<rparr>))"

definition getIndexedDB :: "faults \<Rightarrow> string \<Rightarrow> storage \<Rightarrow> (error + string option) \<times> storage" where
  "getIndexedDB f key s =
     (case getDB f s of (opened, s1) \<Rightarrow>
        if \<not> opened then (Inr None, s1)
        else if idb_get_errors f then (Inl IDBRequestError, s1)
        else (Inr (indexedDB s1 key), s1))"

definition deleteIndexedDB :: "faults \<Rightarrow> string \<Rightarrow> storage \<Rightarrow> (error + unit) \<times> storage" where
  "deleteIndexedDB f key s =
     (case getDB f s of (opened, s1) \<Rightarrow>
        if \<not> opened then (Inr (), s1)
        else if idb_delete_errors f then (Inl IDBRequestError, s1)
        else (Inr (), s1\<lparr>indexedDB := (indexedDB s1)(key := None)\<rparr>))"

subsection \<open>The four exported operations\<close>

text \<open>
  \<open>multiSet\<close> receives the string that the source calls \<open>stringValue\<close> (a string argument
  is stored as it is, anything else is passed through \<open>JSON.stringify\<close> by the caller's
  side of the model). The cookie lifetime \<open>cookieDays\<close> has no effect on what is stored.
\<close>

definition multiSet :: "faults \<Rightarrow> string \<Rightarrow> string \<Rightarrow> storage \<Rightarrow> (error + unit) \<times> storage" where
  "multiSet f key stringValue s =
     (let s1 = (case setItem f key stringValue s of Inl e \<Rightarrow> s | Inr s' \<Rightarrow> s');
          s2 = setCookie f key stringValue s1
      in setIndexedDB f key stringValue s2)"

datatype source = NoSource | FromLocalStorage | FromCookie | FromIndexedDB

text \<open>
  The last block of \<open>multiGet\<close>: \<open>if (value && source) { ... }\<close> writes the value to the
  stores it did not come from. The IndexedDB write is started with
  \<open>setIndexedDB(key, value).catch(() => { })\<close> and not awaited; the model records its
  effect in the state that \<open>multiGet\<close> returns, and drops its error as the \<open>catch\<close> does.
\<close>

definition restore :: "faults \<Rightarrow> string \<Rightarrow> string option \<Rightarrow> source \<Rightarrow> storage \<Rightarrow> storage" where
  "restore f key val src s =
     (case val of
        None \<Rightarrow> s
      | Some v \<Rightarrow>
          if v \<noteq> [] \<and> src \<noteq> NoSource then
            (let s1 = (if src \<noteq> FromLocalStorage
                       then (case setItem f key v s of Inl e \<Rightarrow> s | Inr s' \<Rightarrow> s') else s);
                 s2 = (if src \<noteq> FromCookie then setCookie f key v s1 else s1)
             in if src \<noteq> FromIndexedDB then snd (setIndexedDB f key v s2) else s2)
          else s)"

definition multiGet :: "faults \<Rightarrow> string \<Rightarrow> storage \<Rightarrow> (error + string option) \<times> storage" where
  "multiGet f key s =
     (let value0 = (case getItem f key s of Inl e \<Rightarrow> None | Inr v \<Rightarrow> v);
          source0 = (if truthy value0 then FromLocalStorage else NoSource);
          value1 = (if \<not> truthy value0 then getCookie f key s else value0);
          source1 = (if \<not> truthy value0 \<and> truthy value1 then FromCookie else source0)
      in if \<not> truthy value1 then
           (case getIndexedDB f key s of
              (Inl e, s1) \<Rightarrow> (Inl e, s1)
            | (Inr value2, s1) \<Rightarrow>
                (Inr value2,
                 restore f key value2 (if truthy value2 then FromIndexedDB else source1) s1))
         else (Inr value1, restore f key value1 source1 s))"

definition multiGetSync :: "faults \<Rightarrow> string \<Rightarrow> storage \<Rightarrow> string option \<times> storage" where
  "multiGetSync f key s =
     (case getItem f key s of
        Inl e \<Rightarrow> (getCookie f key s, s)
      | Inr v \<Rightarrow> if truthy v then (v, s) else (getCookie f key s, s))"

definition multiRemove :: "faults \<Rightarrow> string \<Rightarrow> storage \<Rightarrow> (error + unit) \<times> storage" where
  "multiRemove f key s =
     (let s1 = (case removeItem f key s of Inl e \<Rightarrow> s | Inr s' \<Rightarrow> s');
          s2 = deleteCookie f key s1
      in deleteIndexedDB f key s2)"

section \<open>Authentication service (googleAuthService.ts)\<close>

subsection \<open>Data\<close>

record GoogleAuthConfig =
  clientId :: string
  apiBaseUrl :: string
  storagePrefix :: "string option"

record GoogleUser =
  userId :: string
  email :: string
  name :: "string option"
  profilePicture :: "string option"
  isNewUser :: bool

text \<open>
  A request as \<open>fetch\<close> sees it: the URL, the method and the \<open>Authorization\<close> header
  (\<open>credentials: 'include'\<close> is the same on every call). \<open>RequestInit\<close> is the caller's
  \<open>options\<close> argument of \<open>authenticatedFetch\<close>.
\<close>

record request =
  url :: string
  http_method :: string
  authorization :: "string option"

record RequestInit =
  init_method :: string
  init_authorization :: "string option"

text \<open>
  What \<open>response.json()\<close> yields: \<open>NoJson\<close> when it throws, otherwise the fields that the
  service reads (\<open>success\<close> and \<open>access_token\<close> of the refresh answer, the profile fields of
  \<open>/auth/me\<close>); a field missing from the JSON is \<open>False\<close>, \<open>None\<close> or the empty string.
\<close>

datatype payload =
    NoJson
  | Json (success: bool) (access_token: "string option") (user_id: string)
      (data_email: string) (data_name: "string option") (profile_picture: "string option")

record response =
  status :: nat
  payload :: payload

datatype outcome = Failed | Responded response

definition ok :: "response \<Rightarrow> bool" where
  "ok r = (200 \<le> status r \<and> status r \<le> 299)"

text \<open>
  Callbacks are compared by reference in the source (\<open>cb !== callback\<close>); a callback is
  modelled by an identifier, and calling it is recorded in the trace. The trace lists, in
  the order in which they happen, the actions of the service that the outside can observe.
\<close>

type_synonym callback = nat

datatype event =
    Fetch request
  | Notify callback "GoogleUser option"
  | SetAccessToken "string option"
  | MultiRemove string
  | MultiSet string string
  | DisableAutoSelect
  | Revoke string
  | Initialize string

text \<open>
  The environment of one run: the faults of the storage tiers, the server (its answer to a
  request may depend on the requests made before it; \<open>Failed\<close> is a rejected \<open>fetch\<close>),
  \<open>JSON.parse\<close> on a stored identity (\<open>None\<close> when it throws or yields a falsy value),
  \<open>JSON.stringify\<close>, and whether \<open>window.google.accounts.id\<close> is there.
\<close>

record env =
  tier_faults :: faults
  server :: "request list \<Rightarrow> request \<Rightarrow> outcome"
  JSON_parse :: "string \<Rightarrow> GoogleUser option"
  JSON_stringify :: "GoogleUser \<Rightarrow> string"
  google_loaded :: bool

text \<open>The module state: \<open>CONFIG\<close>, \<open>accessToken\<close>, \<open>authStateCallbacks\<close>, and the stores.\<close>

record world =
  CONFIG :: GoogleAuthConfig
  accessToken :: "string option"
  authStateCallbacks :: "callback list"
  store :: storage
  trace :: "event list"

definition initial_CONFIG :: GoogleAuthConfig where
  "initial_CONFIG = \<lparr>clientId = [], apiBaseUrl = [], storagePrefix = Some ''auth''\<rparr>"

fun requests :: "event list \<Rightarrow> request list" where
  "requests [] = []"
| "requests (Fetch r # es) = r # requests es"
| "requests (e # es) = requests es"

subsection \<open>Configuration and keys\<close>

text \<open>A template literal prints \<open>undefined\<close> for a missing value and \<open>null\<close> for \<open>null\<close>.\<close>

definition template_undefined :: "string option \<Rightarrow> string" where
  "template_undefined v = (case v of None \<Rightarrow> ''undefined'' | Some s \<Rightarrow> s)"

definition template_null :: "string option \<Rightarrow> string" where
  "template_null v = (case v of None \<Rightarrow> ''null'' | Some s \<Rightarrow> s)"

record StorageKeys =
  user :: string
  avatarCache :: string

definition getStorageKeys :: "world \<Rightarrow> StorageKeys" where
  "getStorageKeys w =
     \<lparr>user = template_undefined (storagePrefix (CONFIG w)) @ ''_user'',
      avatarCache = template_undefined (storagePrefix (CONFIG w)) @ ''_avatar_cache''\<rparr>"

definition configureGoogleAuth :: "GoogleAuthConfig \<Rightarrow> world \<Rightarrow> world" where
  "configureGoogleAuth config w =
     w\<lparr>CONFIG := (CONFIG w)\<lparr>clientId := clientId config, apiBaseUrl := apiBaseUrl config,
          storagePrefix := (if truthy (storagePrefix config) then storagePrefix config
                            else storagePrefix (CONFIG w))\<rparr>\<rparr>"

definition getAvatarCacheKey :: "world \<Rightarrow> string" where
  "getAvatarCacheKey w = avatarCache (getStorageKeys w)"

subsection \<open>Subscriptions\<close>

definition unsubscribe :: "callback \<Rightarrow> world \<Rightarrow> world" where
  "unsubscribe callback w =
     w\<lparr>authStateCallbacks := filter (\<lambda>cb. cb \<noteq> callback) (authStateCallbacks w)\<rparr>"

text \<open>\<open>onAuthStateChange\<close> pushes the callback and returns the closure that removes it.\<close>

definition onAuthStateChange :: "callback \<Rightarrow> world \<Rightarrow> (world \<Rightarrow> world) \<times> world" where
  "onAuthStateChange callback w =
     (unsubscribe callback, w\<lparr>authStateCallbacks := authStateCallbacks w @ [callback]\<rparr>)"

definition notifyAuthStateChange :: "GoogleUser option \<Rightarrow> world \<Rightarrow> world" where
  "notifyAuthStateChange u w =
     w\<lparr>trace := trace w @ map (\<lambda>cb. Notify cb u) (authStateCallbacks w)\<rparr>"

subsection \<open>Network and provider\<close>

definition fetch :: "env \<Rightarrow> request \<Rightarrow> world \<Rightarrow> outcome \<times> world" where
  "fetch e req w = (server e (requests (trace w)) req, w\<lparr>trace := trace w @ [Fetch req]\<rparr>)"

text \<open>
  \<open>initGoogleAuth\<close> rejects when no client id is configured; otherwise it polls for the
  provider script and resolves after \<open>initialize\<close>, or rejects after ten seconds.
\<close>

definition initGoogleAuth :: "env \<Rightarrow> world \<Rightarrow> (error + unit) \<times> world" where
  "initGoogleAuth e w =
     (if clientId (CONFIG w) = [] then (Inl NotConfigured, w)
      else if google_loaded e
        then (Inr (), w\<lparr>trace := trace w @ [Initialize (clientId (CONFIG w))]\<rparr>)
      else (Inl GoogleLoadTimeout, w))"

subsection \<open>Session\<close>

definition getAccessToken :: "world \<Rightarrow> string option" where
  "getAccessToken w = accessToken w"

definition getCurrentUserSync :: "env \<Rightarrow> world \<Rightarrow> GoogleUser option" where
  "getCurrentUserSync e w =
     (case fst (multiGetSync (tier_faults e) (user (getStorageKeys w)) (store w)) of
        None \<Rightarrow> None
      | Some userStr \<Rightarrow> if userStr = [] then None else JSON_parse e userStr)"

definition logout_request :: "world \<Rightarrow> string option \<Rightarrow> request" where
  "logout_request w token =
     \<lparr>url = apiBaseUrl (CONFIG w) @ ''/auth/logout'', http_method = ''POST'',
      authorization = Some (''Bearer '' @ template_null token)\<rparr>"

text \<open>
  \<open>signOut\<close>: only the \<open>fetch\<close> of the logout and the final \<open>initGoogleAuth\<close> are inside a
  \<open>try\<close>; a rejection of \<open>multiRemove\<close> ends the function at that \<open>await\<close>.
\<close>

definition signOut :: "env \<Rightarrow> world \<Rightarrow> (error + unit) \<times> world" where
  "signOut e w =
     (let u = getCurrentUserSync e w;
          token = accessToken w;
          w1 = w\<lparr>accessToken := None, trace := trace w @ [SetAccessToken None]\<rparr>;
          key = user (getStorageKeys w1);
          w2 = w1\<lparr>trace := trace w1 @ [MultiRemove key]\<rparr>
      in case multiRemove (tier_faults e) key (store w2) of
           (Inl err, st) \<Rightarrow> (Inl err, w2\<lparr>store := st\<rparr>)
         | (Inr _, st) \<Rightarrow>
             (let w3 = w2\<lparr>store := st\<rparr>;
                  w4 = (if google_loaded e
                        then w3\<lparr>trace := trace w3 @ DisableAutoSelect #
                               (case u of None \<Rightarrow> []
                                | Some usr \<Rightarrow> if email usr \<noteq> [] then [Revoke (email usr)] else [])\<rparr>
                        else w3);
                  w5 = (if truthy token then snd (fetch e (logout_request w4 token) w4) else w4);
                  w6 = notifyAuthStateChange None w5
              in (Inr (), snd (initGoogleAuth e w6))))"

definition refresh_request :: "world \<Rightarrow> request" where
  "refresh_request w =
     \<lparr>url = apiBaseUrl (CONFIG w) @ ''/auth/refresh'', http_method = ''POST'',
      authorization = None\<rparr>"

text \<open>\<open>refreshToken\<close>: the whole body is inside one \<open>try\<close>, so it always resolves.\<close>

definition refreshToken :: "env \<Rightarrow> world \<Rightarrow> bool \<times> world" where
  "refreshToken e w =
     (case fetch e (refresh_request w) w of
        (Failed, w1) \<Rightarrow> (False, w1)
      | (Responded r, w1) \<Rightarrow>
          if \<not> ok r then (False, snd (signOut e w1))
          else (case payload r of
                  NoJson \<Rightarrow> (False, w1)
                | Json succ tok uid em nm pic \<Rightarrow>
                    if succ \<and> truthy tok
                    then (True, w1\<lparr>accessToken := tok, trace := trace w1 @ [SetAccessToken tok]\<rparr>)
                    else (False, w1)))"

definition me_request :: "world \<Rightarrow> string option \<Rightarrow> request" where
  "me_request w token =
     \<lparr>url = apiBaseUrl (CONFIG w) @ ''/auth/me'', http_method = ''GET'',
      authorization = Some (''Bearer '' @ template_null token)\<rparr>"

text \<open>\<open>fetchUserInfo\<close>: everything after the token test is inside one \<open>try\<close>.\<close>

definition fetchUserInfo :: "env \<Rightarrow> world \<Rightarrow> GoogleUser option \<times> world" where
  "fetchUserInfo e w =
     (let token = getAccessToken w
      in if \<not> truthy token then (None, w)
         else (case fetch e (me_request w token) w of
                 (Failed, w1) \<Rightarrow> (None, w1)
               | (Responded r, w1) \<Rightarrow>
                   if \<not> ok r
                   then (if status r = 401 then (None, snd (signOut e w1)) else (None, w1))
                   else (case payload r of
                           NoJson \<Rightarrow> (None, w1)
                         | Json succ tok uid em nm pic \<Rightarrow>
                             (let usr = \<lparr>userId = uid, email = em, name = nm,
                                         profilePicture = pic, isNewUser = False\<rparr>;
                                  key = user (getStorageKeys w1);
                                  str = JSON_stringify e usr;
                                  w2 = w1\<lparr>trace := trace w1 @ [MultiSet key str]\<rparr>
                              in case multiSet (tier_faults e) key str (store w2) of
                                   (Inl err, st) \<Rightarrow> (None, w2\<lparr>store := st\<rparr>)
                                 | (Inr _, st) \<Rightarrow>
                                     (Some usr,
                                      notifyAuthStateChange (Some usr) (w2\<lparr>store := st\<rparr>))))))"

definition initializeAuth :: "env \<Rightarrow> world \<Rightarrow> GoogleUser option \<times> world" where
  "initializeAuth e w =
     (case (if truthy (accessToken w) then fetchUserInfo e w else (None, w)) of
        (Some freshUser, w1) \<Rightarrow> (Some freshUser, w1)
      | (None, w1) \<Rightarrow>
          if getCurrentUserSync e w1 = None then (None, snd (initGoogleAuth e w1))
          else (case refreshToken e w1 of (refreshed, w2) \<Rightarrow>
                  (case (if refreshed then fetchUserInfo e w2 else (None, w2)) of
                     (Some usr, w3) \<Rightarrow> (Some usr, w3)
                   | (None, w3) \<Rightarrow> (None, snd (initGoogleAuth e w3)))))"

text \<open>
  \<open>authenticatedFetch\<close>: no \<open>try\<close> at all. A rejected \<open>fetch\<close> and a rejected \<open>signOut\<close>
  reject the call.
\<close>

definition settle :: "outcome \<Rightarrow> error + response" where
  "settle out = (case out of Failed \<Rightarrow> Inl NetworkError | Responded r \<Rightarrow> Inr r)"

text \<open>The request of the first \<open>fetch\<close>: the caller's options with the bearer header set.\<close>

definition bearer_request :: "string \<Rightarrow> RequestInit \<Rightarrow> string option \<Rightarrow> request" where
  "bearer_request u options token =
     \<lparr>url = u, http_method = init_method options,
      authorization = (if truthy token then Some (''Bearer '' @ template_null token)
                       else init_authorization options)\<rparr>"

definition authenticatedFetch ::
    "env \<Rightarrow> string \<Rightarrow> RequestInit \<Rightarrow> world \<Rightarrow> (error + response) \<times> world" where
  "authenticatedFetch e u options w =
     (let token = getAccessToken w;
          req = bearer_request u options token
      in case fetch e req w of
           (Failed, w1) \<Rightarrow> (Inl NetworkError, w1)
         | (Responded r, w1) \<Rightarrow>
             if status r = 401 \<and> truthy token then
               (case refreshToken e w1 of
                  (True, w2) \<Rightarrow>
                    (let newToken = getAccessToken w2;
                         retry = req\<lparr>authorization := Some (''Bearer '' @ template_null newToken)\<rparr>
                     in case fetch e retry w2 of (out, w3) \<Rightarrow> (settle out, w3))
                | (False, w2) \<Rightarrow>
                    (case signOut e w2 of
                       (Inl err, w3) \<Rightarrow> (Inl err, w3)
                     | (Inr _, w3) \<Rightarrow> (Inr r, w3)))
             else (Inr r, w1))"

section \<open>Vocabulary of the statements\<close>

text \<open>
  The refresh attempt fails when the \<open>fetch\<close> is rejected, when the answer is not OK, or
  when the answer carries no \<open>success\<close> flag with a non-empty \<open>access_token\<close>.
\<close>

definition refresh_fails :: "outcome \<Rightarrow> bool" where
  "refresh_fails out =
     (case out of
        Failed \<Rightarrow> True
      | Responded r \<Rightarrow>
          \<not> ok r \<or> (case payload r of NoJson \<Rightarrow> True
                      | Json succ tok uid em nm pic \<Rightarrow> \<not> (succ \<and> truthy tok)))"

text \<open>
  The IndexedDB tier is down for an operation when its connection was rejected before, or
  is opened by this operation and rejected. \<open>failed_tiers\<close> counts the tiers that do not
  take a write; a tier holds a stale value when it holds a non-empty value other than the
  one being written.
\<close>

definition idb_down :: "faults \<Rightarrow> storage \<Rightarrow> bool" where
  "idb_down f s = (dbPromise s = Some False \<or> (dbPromise s = None \<and> idb_open_fails f))"

definition failed_tiers :: "faults \<Rightarrow> storage \<Rightarrow> nat" where
  "failed_tiers f s =
     (if ls_set_throws f then 1 else 0) + (if cookie_set_fails f then 1 else 0)
       + (if idb_down f s then 1 else 0)"

definition stale :: "string option \<Rightarrow> string \<Rightarrow> bool" where
  "stale old v = (truthy old \<and> old \<noteq> Some v)"

text \<open>
  A run of \<open>configureGoogleAuth\<close> calls, and the prefix that the last call with a
  non-empty \<open>storagePrefix\<close> supplied (\<open>auth\<close> when there is none).
\<close>

definition nonempty_prefixes :: "GoogleAuthConfig list \<Rightarrow> string list" where
  "nonempty_prefixes cfgs = filter (\<lambda>p. p \<noteq> []) (List.map_filter storagePrefix cfgs)"

definition effective_prefix :: "GoogleAuthConfig list \<Rightarrow> string" where
  "effective_prefix cfgs =
     (if nonempty_prefixes cfgs = [] then ''auth'' else last (nonempty_prefixes cfgs))"

text \<open>A run of subscriptions, in the order of the list.\<close>

definition subscribe_all :: "callback list \<Rightarrow> world \<Rightarrow> world" where
  "subscribe_all cbs w = fold (\<lambda>cb w'. snd (onAuthStateChange cb w')) cbs w"

section \<open>Concrete inputs\<close>

definition fresh_storage :: storage where
  "fresh_storage = \<lparr>localStorage = Map.empty, cookie = Map.empty, indexedDB = Map.empty,
     dbPromise = None\<rparr>"

definition demo_user :: GoogleUser where
  "demo_user = \<lparr>userId = ''42'', email = ''ann@example.org'', name = None,
     profilePicture = None, isNewUser = False\<rparr>"

definition demo_parse :: "string \<Rightarrow> GoogleUser option" where
  "demo_parse str = (if str = ''{ann}'' then Some demo_user else None)"

definition demo_stringify :: "GoogleUser \<Rightarrow> string" where
  "demo_stringify usr = ''{ann}''"

definition demo_CONFIG :: GoogleAuthConfig where
  "demo_CONFIG =
     \<lparr>clientId = ''client'', apiBaseUrl = ''https://api'', storagePrefix = Some ''auth''\<rparr>"

definition cached_storage :: storage where
  "cached_storage =
     \<lparr>localStorage = [''auth_user'' \<mapsto> ''{ann}''], cookie = [''auth_user'' \<mapsto> ''{ann}''],
      indexedDB = [''auth_user'' \<mapsto> ''{ann}''], dbPromise = Some True\<rparr>"

definition anonymous_world :: world where
  "anonymous_world = \<lparr>CONFIG = demo_CONFIG, accessToken = None, authStateCallbacks = [1, 2],
     store = fresh_storage, trace = []\<rparr>"

definition returning_world :: world where
  "returning_world = anonymous_world\<lparr>store := cached_storage\<rparr>"

definition signed_in_world :: world where
  "signed_in_world = returning_world\<lparr>accessToken := Some ''tok''\<rparr>"

definition server_offline :: "request list \<Rightarrow> request \<Rightarrow> outcome" where
  "server_offline h r = Failed"

definition server_expired :: "request list \<Rightarrow> request \<Rightarrow> outcome" where
  "server_expired h r = Responded \<lparr>status = 401, payload = NoJson\<rparr>"

text \<open>
  A server whose refresh endpoint hands out the token \<open>new\<close>, and whose other endpoints
  answer 401 to the first request for a URL and 200 to the later ones.
\<close>

definition server_once_401 :: "request list \<Rightarrow> request \<Rightarrow> outcome" where
  "server_once_401 h r =
     (if url r = ''https://api/auth/refresh''
      then Responded \<lparr>status = 200, payload = Json True (Some ''new'') [] [] None None\<rparr>
      else if url r \<in> set (map url h) then Responded \<lparr>status = 200, payload = NoJson\<rparr>
      else Responded \<lparr>status = 401, payload = NoJson\<rparr>)"

definition env_of :: "(request list \<Rightarrow> request \<Rightarrow> outcome) \<Rightarrow> faults \<Rightarrow> env" where
  "env_of srv f = \<lparr>tier_faults = f, server = srv, JSON_parse = demo_parse,
     JSON_stringify = demo_stringify, google_loaded = True\<rparr>"

definition delete_error_faults :: faults where
  "delete_error_faults = no_faults\<lparr>idb_delete_errors := True\<rparr>"

definition put_error_faults :: faults where
  "put_error_faults = no_faults\<lparr>idb_put_errors := True\<rparr>"

definition ls_full_faults :: faults where
  "ls_full_faults = no_faults\<lparr>ls_set_throws := True\<rparr>"

definition stale_storage :: storage where
  "stale_storage = fresh_storage\<lparr>localStorage := [''k'' \<mapsto> ''old'']\<rparr>"

definition only_idb_empty :: storage where
  "only_idb_empty = fresh_storage\<lparr>indexedDB := [''k'' \<mapsto> []]\<rparr>"

definition only_idb :: storage where
  "only_idb = fresh_storage\<lparr>indexedDB := [''k'' \<mapsto> ''v'']\<rparr>"

definition open_error_faults :: faults where
  "open_error_faults = no_faults\<lparr>idb_open_fails := True\<rparr>"

definition cookie_full_faults :: faults where
  "cookie_full_faults = no_faults\<lparr>cookie_set_fails := True\<rparr>"

definition stale_cookie_storage :: storage where
  "stale_cookie_storage = fresh_storage\<lparr>cookie := [''k'' \<mapsto> ''old'']\<rparr>"

definition empty_ls_storage :: storage where
  "empty_ls_storage =
     fresh_storage\<lparr>localStorage := [''k'' \<mapsto> []], cookie := [''k'' \<mapsto> ''b'']\<rparr>"

definition get_options :: RequestInit where
  "get_options = \<lparr>init_method = ''GET'', init_authorization = None\<rparr>"

definition custom_config :: GoogleAuthConfig where
  "custom_config =
     \<lparr>clientId = ''client'', apiBaseUrl = ''https://api'', storagePrefix = Some ''custom''\<rparr>"

definition omitting_config :: GoogleAuthConfig where
  "omitting_config =
     \<lparr>clientId = ''client'', apiBaseUrl = ''https://api'', storagePrefix = None\<rparr>"

definition empty_prefix_config :: GoogleAuthConfig where
  "empty_prefix_config =
     \<lparr>clientId = ''client'', apiBaseUrl = ''https://api'', storagePrefix = Some []\<rparr>"

section \<open>Basic facts\<close>

lemmas tier_defs = getItem_def setItem_def removeItem_def setCookie_def getCookie_def
  deleteCookie_def getDB_def setIndexedDB_def getIndexedDB_def deleteIndexedDB_def

lemmas demo_defs = fresh_storage_def demo_user_def demo_parse_def demo_stringify_def
  demo_CONFIG_def cached_storage_def anonymous_world_def returning_world_def
  signed_in_world_def server_offline_def server_expired_def server_once_401_def env_of_def
  delete_error_faults_def put_error_faults_def ls_full_faults_def stale_storage_def
  only_idb_empty_def only_idb_def get_options_def custom_config_def omitting_config_def
  empty_prefix_config_def open_error_faults_def cookie_full_faults_def
  stale_cookie_storage_def empty_ls_storage_def no_faults_def

lemmas session_defs = getStorageKeys_def template_undefined_def template_null_def
  getCurrentUserSync_def multiGetSync_def multiRemove_def multiSet_def signOut_def
  refreshToken_def fetch_def notifyAuthStateChange_def initGoogleAuth_def logout_request_def
  refresh_request_def me_request_def bearer_request_def getAccessToken_def truthy_def ok_def
  settle_def Let_def

lemma no_faults_simps [simp]:
  "\<not> ls_get_throws no_faults" "\<not> ls_set_throws no_faults" "\<not> ls_remove_throws no_faults"
  "\<not> cookie_get_throws no_faults" "\<not> cookie_set_fails no_faults"
  "\<not> cookie_delete_fails no_faults" "\<not> idb_open_fails no_faults"
  "\<not> idb_put_errors no_faults" "\<not> idb_get_errors no_faults" "\<not> idb_delete_errors no_faults"
  by (simp_all add: no_faults_def)

lemma multiSet_no_faults:
  assumes "dbPromise s \<noteq> Some False"
  shows "multiSet no_faults key v s = (Inr (),
     s\<lparr>localStorage := (localStorage s)(key \<mapsto> v), cookie := (cookie s)(key \<mapsto> v),
       dbPromise := Some True, indexedDB := (indexedDB s)(key \<mapsto> v)\<rparr>)"
  using assms by (cases "dbPromise s") (auto simp: multiSet_def tier_defs)

lemma multiRemove_no_faults:
  assumes "dbPromise s \<noteq> Some False"
  shows "multiRemove no_faults key s = (Inr (),
     s\<lparr>localStorage := (localStorage s)(key := None), cookie := (cookie s)(key := None),
       dbPromise := Some True, indexedDB := (indexedDB s)(key := None)\<rparr>)"
  using assms by (cases "dbPromise s") (auto simp: multiRemove_def tier_defs)

lemma multiRemove_raises:
  "isl (fst (multiRemove f key s)) \<longleftrightarrow>
     idb_delete_errors f \<and> (dbPromise s = Some True \<or> (dbPromise s = None \<and> \<not> idb_open_fails f))"
  by (cases "dbPromise s") (auto simp: multiRemove_def tier_defs Let_def split: sum.splits)

section \<open>Storage: the synchronous read\<close>

text \<open>
  The claim C7 says that \<open>multiGetSync\<close> returns the \<open>localStorage\<close> value when present.
  When \<open>localStorage\<close> holds the empty string under the key and the cookie holds \<open>b\<close>, the
  test \<open>if (value)\<close> fails and the result is \<open>b\<close>.
\<close>

theorem multiGetSync_skips_empty_localStorage:
  "localStorage empty_ls_storage ''k'' = Some []
   \<and> cookie empty_ls_storage ''k'' = Some ''b''
   \<and> fst (multiGetSync no_faults ''k'' empty_ls_storage) = Some ''b''"
  by (simp add: empty_ls_storage_def fresh_storage_def multiGetSync_def getItem_def
        getCookie_def truthy_def)

text \<open>
  C7, amended. For every key, \<open>multiGetSync\<close> consults only the two synchronous tiers: it
  returns the \<open>localStorage\<close> value when that can be read and is not empty, and otherwise
  what \<open>getCookie\<close> yields, which is the cookie's value (the empty string when the cookie
  holds it) and \<open>null\<close> when there is no cookie or the cookie cannot be read. It never
  touches IndexedDB: it hands the stores back as it found them, and its result is the same
  whatever the IndexedDB store and the cached connection are.
\<close>

theorem multiGetSync_sync_tiers_only:
  "snd (multiGetSync f key s) = s
   \<and> fst (multiGetSync f key (s\<lparr>indexedDB := db, dbPromise := p\<rparr>)) = fst (multiGetSync f key s)
   \<and> fst (multiGetSync f key s) =
       (if \<not> ls_get_throws f \<and> truthy (localStorage s key) then localStorage s key
        else if cookie_get_throws f then None else cookie s key)"
  by (simp add: multiGetSync_def getItem_def getCookie_def)

theorem multiGetSync_sync_tiers_only_witness:
  "snd (multiGetSync no_faults ''auth_user'' cached_storage) = cached_storage
   \<and> fst (multiGetSync no_faults ''auth_user''
        (cached_storage\<lparr>indexedDB := Map.empty, dbPromise := Some False\<rparr>)) = Some ''{ann}''
   \<and> fst (multiGetSync no_faults ''auth_user'' cached_storage) = Some ''{ann}''
   \<and> fst (multiGetSync no_faults ''k'' fresh_storage) = None"
  using multiGetSync_sync_tiers_only [where f = no_faults and key = "''auth_user''"
      and s = cached_storage and db = Map.empty and p = "Some False"]
    multiGetSync_sync_tiers_only [where f = no_faults and key = "''k''"
      and s = fresh_storage and db = Map.empty and p = "Some False"]
  by (simp add: cached_storage_def fresh_storage_def truthy_def)

section \<open>Storage: the empty string\<close>

text \<open>
  The claim C9 says that after \<open>multiSet(k, "")\<close> reached all three tiers, \<open>multiGet(k)\<close>
  and \<open>multiGetSync(k)\<close> return \<open>null\<close>. On a fresh set of stores both return the empty
  string: each probe treats it as a miss, but the result of the last probe is returned as
  it is.
\<close>

theorem empty_string_read_back:
  "fst (multiSet no_faults ''k'' [] fresh_storage) = Inr ()
   \<and> localStorage (snd (multiSet no_faults ''k'' [] fresh_storage)) ''k'' = Some []
   \<and> cookie (snd (multiSet no_faults ''k'' [] fresh_storage)) ''k'' = Some []
   \<and> indexedDB (snd (multiSet no_faults ''k'' [] fresh_storage)) ''k'' = Some []
   \<and> fst (multiGet no_faults ''k'' (snd (multiSet no_faults ''k'' [] fresh_storage))) = Inr (Some [])
   \<and> fst (multiGetSync no_faults ''k'' (snd (multiSet no_faults ''k'' [] fresh_storage))) = Some []"
  by (simp add: fresh_storage_def multiSet_no_faults multiGet_def multiGetSync_def tier_defs
        truthy_def restore_def Let_def)

text \<open>
  C9, amended. For every key, after \<open>multiSet(k, "")\<close> succeeded in all three tiers, every
  probe treats the stored empty string as a miss, so that \<open>multiGet\<close> goes through all
  three tiers and repairs nothing (the stores are left as they were); the value handed
  back is what the last probed tier holds: \<open>multiGet(k)\<close> and \<open>multiGetSync(k)\<close> both return
  the empty string, not \<open>null\<close>.
\<close>

theorem empty_string_returned_raw:
  assumes "dbPromise s \<noteq> Some False"
  shows "fst (multiSet no_faults key [] s) = Inr ()
    \<and> multiGet no_faults key (snd (multiSet no_faults key [] s))
        = (Inr (Some []), snd (multiSet no_faults key [] s))
    \<and> multiGetSync no_faults key (snd (multiSet no_faults key [] s))
        = (Some [], snd (multiSet no_faults key [] s))"
  using assms
  by (simp add: multiSet_no_faults multiGet_def multiGetSync_def tier_defs truthy_def
        restore_def Let_def)

theorem empty_string_returned_raw_witness:
  "dbPromise fresh_storage \<noteq> Some False
   \<and> fst (multiSet no_faults ''k'' [] fresh_storage) = Inr ()
   \<and> multiGet no_faults ''k'' (snd (multiSet no_faults ''k'' [] fresh_storage))
        = (Inr (Some []), snd (multiSet no_faults ''k'' [] fresh_storage))
   \<and> multiGetSync no_faults ''k'' (snd (multiSet no_faults ''k'' [] fresh_storage))
        = (Some [], snd (multiSet no_faults ''k'' [] fresh_storage))"
proof -
  have h: "dbPromise fresh_storage \<noteq> Some False" by (simp add: fresh_storage_def)
  show ?thesis using h empty_string_returned_raw [OF h, of "''k''"] by simp
qed

section \<open>Storage: read repair\<close>

lemma multiGet_first_hit:
  assumes "dbPromise s \<noteq> Some False"
  shows "fst (multiGet no_faults key s) =
     Inr (if truthy (localStorage s key) then localStorage s key
          else if truthy (cookie s key) then cookie s key else indexedDB s key)"
  using assms by (cases "dbPromise s") (auto simp: multiGet_def tier_defs Let_def)

lemma multiGet_restores:
  assumes "dbPromise s \<noteq> Some False" and "v \<noteq> []"
    and "(if truthy (localStorage s key) then localStorage s key
          else if truthy (cookie s key) then cookie s key else indexedDB s key) = Some v"
  shows "localStorage (snd (multiGet no_faults key s)) = (localStorage s)(key \<mapsto> v)"
    and "cookie (snd (multiGet no_faults key s)) = (cookie s)(key \<mapsto> v)"
    and "indexedDB (snd (multiGet no_faults key s)) = (indexedDB s)(key \<mapsto> v)"
  using assms
  by (cases "dbPromise s";
      auto simp: multiGet_def tier_defs Let_def restore_def truthy_def map_upd_triv
        split: if_splits)+

text \<open>
  The claim C4 says that a value held by the IndexedDB tier alone is in both synchronous
  tiers after \<open>multiGet\<close>. When that value is the empty string, \<open>multiGet\<close> returns it and
  writes nothing.
\<close>

theorem multiGet_empty_value_not_repaired:
  "indexedDB only_idb_empty ''k'' = Some []
   \<and> localStorage only_idb_empty ''k'' = None
   \<and> cookie only_idb_empty ''k'' = None
   \<and> fst (multiGet no_faults ''k'' only_idb_empty) = Inr (Some [])
   \<and> localStorage (snd (multiGet no_faults ''k'' only_idb_empty)) ''k'' = None
   \<and> cookie (snd (multiGet no_faults ''k'' only_idb_empty)) ''k'' = None"
  by (simp add: only_idb_empty_def fresh_storage_def multiGet_def tier_defs truthy_def
        restore_def Let_def)

text \<open>
  C4, amended. With the three tiers working: for every key whose non-empty value \<open>v\<close> is
  held by exactly one tier (the other two hold nothing for the key), \<open>multiGet\<close> returns
  \<open>v\<close> and leaves \<open>v\<close> under the key in all three tiers, so that a value found only in
  IndexedDB is in \<open>localStorage\<close> and in the cookie afterwards. In any state of the stores
  the result is the first non-empty value in the order \<open>localStorage\<close>, cookie, IndexedDB,
  and what IndexedDB holds when the first two have none.
\<close>

theorem multiGet_read_repair:
  assumes "dbPromise s \<noteq> Some False"
  shows "fst (multiGet no_faults key s) =
           Inr (if truthy (localStorage s key) then localStorage s key
                else if truthy (cookie s key) then cookie s key else indexedDB s key)
     \<and> (v \<noteq> [] \<and> (localStorage s key, cookie s key, indexedDB s key)
           \<in> {(Some v, None, None), (None, Some v, None), (None, None, Some v)} \<longrightarrow>
         fst (multiGet no_faults key s) = Inr (Some v)
         \<and> localStorage (snd (multiGet no_faults key s)) = (localStorage s)(key \<mapsto> v)
         \<and> cookie (snd (multiGet no_faults key s)) = (cookie s)(key \<mapsto> v)
         \<and> indexedDB (snd (multiGet no_faults key s)) = (indexedDB s)(key \<mapsto> v))"
proof (intro conjI impI)
  show "fst (multiGet no_faults key s) =
           Inr (if truthy (localStorage s key) then localStorage s key
                else if truthy (cookie s key) then cookie s key else indexedDB s key)"
    by (rule multiGet_first_hit [OF assms])
next
  assume a: "v \<noteq> [] \<and> (localStorage s key, cookie s key, indexedDB s key)
           \<in> {(Some v, None, None), (None, Some v, None), (None, None, Some v)}"
  then have v: "v \<noteq> []" by simp
  have hit: "(if truthy (localStorage s key) then localStorage s key
          else if truthy (cookie s key) then cookie s key else indexedDB s key) = Some v"
    using a by (auto simp: truthy_def)
  show "fst (multiGet no_faults key s) = Inr (Some v)"
    using multiGet_first_hit [OF assms, of key] hit by simp
  show "localStorage (snd (multiGet no_faults key s)) = (localStorage s)(key \<mapsto> v)"
    by (rule multiGet_restores(1) [OF assms v hit])
  show "cookie (snd (multiGet no_faults key s)) = (cookie s)(key \<mapsto> v)"
    by (rule multiGet_restores(2) [OF assms v hit])
  show "indexedDB (snd (multiGet no_faults key s)) = (indexedDB s)(key \<mapsto> v)"
    by (rule multiGet_restores(3) [OF assms v hit])
qed

theorem multiGet_read_repair_witness:
  "dbPromise only_idb \<noteq> Some False
   \<and> (localStorage only_idb ''k'', cookie only_idb ''k'', indexedDB only_idb ''k'')
        = (None, None, Some ''v'')
   \<and> fst (multiGet no_faults ''k'' only_idb) = Inr (Some ''v'')
   \<and> localStorage (snd (multiGet no_faults ''k'' only_idb)) ''k'' = Some ''v''
   \<and> cookie (snd (multiGet no_faults ''k'' only_idb)) ''k'' = Some ''v''
   \<and> indexedDB (snd (multiGet no_faults ''k'' only_idb)) ''k'' = Some ''v''"
proof -
  have h: "dbPromise only_idb \<noteq> Some False" by (simp add: only_idb_def fresh_storage_def)
  have one: "(localStorage only_idb ''k'', cookie only_idb ''k'', indexedDB only_idb ''k'')
        = (None, None, Some ''v'')"
    by (simp add: only_idb_def fresh_storage_def)
  show ?thesis
    using h one multiGet_read_repair [OF h, of "''k''" "''v''"] by (simp add: truthy_def)
qed

section \<open>Storage: failures of the tiers\<close>

text \<open>
  What the un-awaited request promise does: with the connection open, an error of the
  \<open>put\<close>, \<open>get\<close> or \<open>delete\<close> request rejects \<open>multiSet\<close>, \<open>multiGet\<close> (when it reaches the
  IndexedDB probe) and \<open>multiRemove\<close>, although the two synchronous tiers were written
  or cleared before.
\<close>

lemma request_errors_escape:
  assumes "dbPromise s = Some True"
  shows "idb_put_errors f \<Longrightarrow> fst (multiSet f key v s) = Inl IDBRequestError"
    and "idb_get_errors f \<Longrightarrow> \<not> truthy (localStorage s key) \<Longrightarrow> \<not> truthy (cookie s key) \<Longrightarrow>
           fst (multiGet f key s) = Inl IDBRequestError"
    and "idb_delete_errors f \<Longrightarrow> fst (multiRemove f key s) = Inl IDBRequestError"
  using assms
  by (auto simp: multiSet_def multiGet_def multiRemove_def tier_defs Let_def truthy_def
        split: sum.splits option.splits)

lemma multiSet_put_error_rejects:
  "fst (multiSet put_error_faults ''k'' ''v'' fresh_storage) = Inl IDBRequestError
   \<and> localStorage (snd (multiSet put_error_faults ''k'' ''v'' fresh_storage)) ''k'' = Some ''v''
   \<and> cookie (snd (multiSet put_error_faults ''k'' ''v'' fresh_storage)) ''k'' = Some ''v''"
  by (simp add: put_error_faults_def no_faults_def fresh_storage_def multiSet_def tier_defs)

text \<open>
  With the request errors set aside, each operation resolves and acts on exactly the tiers
  that work: \<open>multiSet\<close> writes the tiers whose write does not fail, \<open>multiRemove\<close> clears
  the tiers whose removal does not fail, and \<open>multiGet\<close> returns the first non-empty value
  among the tiers it can read.
\<close>

lemma multiSet_tiers:
  assumes "\<not> idb_put_errors f"
  shows "fst (multiSet f key v s) = Inr ()"
    and "localStorage (snd (multiSet f key v s)) =
           (if ls_set_throws f then localStorage s else (localStorage s)(key \<mapsto> v))"
    and "cookie (snd (multiSet f key v s)) =
           (if cookie_set_fails f then cookie s else (cookie s)(key \<mapsto> v))"
    and "indexedDB (snd (multiSet f key v s)) =
           (if idb_down f s then indexedDB s else (indexedDB s)(key \<mapsto> v))"
    and "dbPromise (snd (multiSet f key v s)) = Some (\<not> idb_down f s)"
  using assms
  by (cases "dbPromise s"; auto simp: multiSet_def tier_defs Let_def idb_down_def)+

lemma multiRemove_tiers:
  assumes "\<not> idb_delete_errors f"
  shows "fst (multiRemove f key s) = Inr ()"
    and "localStorage (snd (multiRemove f key s)) =
           (if ls_remove_throws f then localStorage s else (localStorage s)(key := None))"
    and "cookie (snd (multiRemove f key s)) =
           (if cookie_delete_fails f then cookie s else (cookie s)(key := None))"
    and "indexedDB (snd (multiRemove f key s)) =
           (if idb_down f s then indexedDB s else (indexedDB s)(key := None))"
  using assms
  by (cases "dbPromise s"; auto simp: multiRemove_def tier_defs Let_def idb_down_def)+

lemma multiGet_degraded:
  assumes "\<not> idb_get_errors f"
  shows "fst (multiGet f key s) =
     Inr (if \<not> ls_get_throws f \<and> truthy (localStorage s key) then localStorage s key
          else if \<not> cookie_get_throws f \<and> truthy (cookie s key) then cookie s key
          else if idb_down f s then None else indexedDB s key)"
  using assms
  by (cases "dbPromise s") (auto simp: multiGet_def tier_defs Let_def idb_down_def truthy_def)

lemma multiGet_after_open:
  "dbPromise s' = Some b \<Longrightarrow> fst (multiGet no_faults key s') =
     Inr (if truthy (localStorage s' key) then localStorage s' key
          else if truthy (cookie s' key) then cookie s' key
          else if b then indexedDB s' key else None)"
  by (auto simp: multiGet_def tier_defs Let_def)

lemma read_back:
  assumes "\<not> idb_put_errors f" and "failed_tiers f s \<le> 1"
  shows "(fst (multiGet no_faults key (snd (multiSet f key v s))) = Inr (Some v)) =
     (\<not> (ls_set_throws f \<and> stale (localStorage s key) v)
      \<and> (v = [] \<longrightarrow> \<not> (cookie_set_fails f \<and> stale (cookie s key) v) \<and> \<not> idb_down f s))"
  using assms(2)
  unfolding multiGet_after_open [OF multiSet_tiers(5) [OF assms(1)]]
    multiSet_tiers(2-4) [OF assms(1)]
  by (auto simp: failed_tiers_def stale_def truthy_def split: if_splits option.splits)

text \<open>
  The claim C2 says that \<open>multiSet(k, v)\<close> followed by \<open>multiGet(k)\<close> returns \<open>v\<close> when one
  tier fails during the write. When \<open>localStorage\<close> holds an older value and its
  \<open>setItem\<close> throws, the write reaches the cookie and IndexedDB, and the read returns the
  older value, which has priority. When \<open>v\<close> is the empty string, no probe of the read
  counts it as found: with the IndexedDB connection rejected the read returns \<open>null\<close>, and
  with the cookie write dropped over an older cookie the read returns the older cookie.
\<close>

theorem multiGet_returns_stale_value:
  "fst (multiSet ls_full_faults ''k'' ''new'' stale_storage) = Inr ()
   \<and> failed_tiers ls_full_faults stale_storage = 1
   \<and> cookie (snd (multiSet ls_full_faults ''k'' ''new'' stale_storage)) ''k'' = Some ''new''
   \<and> indexedDB (snd (multiSet ls_full_faults ''k'' ''new'' stale_storage)) ''k'' = Some ''new''
   \<and> fst (multiGet no_faults ''k'' (snd (multiSet ls_full_faults ''k'' ''new'' stale_storage)))
        = Inr (Some ''old'')
   \<and> fst (multiSet open_error_faults ''k'' [] fresh_storage) = Inr ()
   \<and> failed_tiers open_error_faults fresh_storage = 1
   \<and> fst (multiGet no_faults ''k'' (snd (multiSet open_error_faults ''k'' [] fresh_storage)))
        = Inr None
   \<and> fst (multiSet cookie_full_faults ''k'' [] stale_cookie_storage) = Inr ()
   \<and> failed_tiers cookie_full_faults stale_cookie_storage = 1
   \<and> fst (multiGet no_faults ''k''
        (snd (multiSet cookie_full_faults ''k'' [] stale_cookie_storage))) = Inr (Some ''old'')"
  by (simp add: ls_full_faults_def open_error_faults_def cookie_full_faults_def no_faults_def
        stale_storage_def stale_cookie_storage_def fresh_storage_def failed_tiers_def
        idb_down_def multiSet_def multiGet_def tier_defs truthy_def restore_def Let_def)

text \<open>
  C2, amended. For every key and value and every combination of \<open>localStorage\<close>
  throwing, cookie reads, writes and deletions failing, and the IndexedDB connection
  failing to open (what happens when an IndexedDB \<open>put\<close>, \<open>get\<close> or \<open>delete\<close> request
  itself errors is left out), \<open>multiSet\<close>, \<open>multiGet\<close> and \<open>multiRemove\<close> complete without
  raising and degrade to the tiers that remain available: \<open>multiSet\<close> writes the value to
  exactly the tiers whose write does not fail, \<open>multiRemove\<close> removes the key from exactly
  the tiers whose removal does not fail, and \<open>multiGet\<close> returns the first non-empty value
  among the tiers that can be read, in the order \<open>localStorage\<close>, cookie, IndexedDB (what
  IndexedDB holds, or \<open>null\<close>, when there is none). A \<open>multiSet(k, v)\<close> during which at
  most one tier fails, followed by \<open>multiGet(k)\<close> on working tiers, returns \<open>v\<close> except
  when the \<open>localStorage\<close> write failed while \<open>localStorage\<close> held another non-empty
  value; for the empty string \<open>v\<close> it is also required that the cookie write did not fail
  over a non-empty cookie and that IndexedDB took the write.
\<close>

theorem tier_failures_absorbed:
  assumes "\<not> idb_put_errors f" and "\<not> idb_get_errors f" and "\<not> idb_delete_errors f"
  shows "fst (multiSet f key v s) = Inr ()
     \<and> localStorage (snd (multiSet f key v s)) =
         (if ls_set_throws f then localStorage s else (localStorage s)(key \<mapsto> v))
     \<and> cookie (snd (multiSet f key v s)) =
         (if cookie_set_fails f then cookie s else (cookie s)(key \<mapsto> v))
     \<and> indexedDB (snd (multiSet f key v s)) =
         (if idb_down f s then indexedDB s else (indexedDB s)(key \<mapsto> v))
     \<and> fst (multiRemove f key s) = Inr ()
     \<and> localStorage (snd (multiRemove f key s)) =
         (if ls_remove_throws f then localStorage s else (localStorage s)(key := None))
     \<and> cookie (snd (multiRemove f key s)) =
         (if cookie_delete_fails f then cookie s else (cookie s)(key := None))
     \<and> indexedDB (snd (multiRemove f key s)) =
         (if idb_down f s then indexedDB s else (indexedDB s)(key := None))
     \<and> fst (multiGet f key s) =
         Inr (if \<not> ls_get_throws f \<and> truthy (localStorage s key) then localStorage s key
              else if \<not> cookie_get_throws f \<and> truthy (cookie s key) then cookie s key
              else if idb_down f s then None else indexedDB s key)
     \<and> (failed_tiers f s \<le> 1 \<longrightarrow>
          (fst (multiGet no_faults key (snd (multiSet f key v s))) = Inr (Some v)) =
          (\<not> (ls_set_throws f \<and> stale (localStorage s key) v)
           \<and> (v = [] \<longrightarrow>
                \<not> (cookie_set_fails f \<and> stale (cookie s key) v) \<and> \<not> idb_down f s)))"
proof (intro conjI impI)
  show "fst (multiSet f key v s) = Inr ()"
    by (rule multiSet_tiers(1) [OF assms(1)])
  show "localStorage (snd (multiSet f key v s)) =
         (if ls_set_throws f then localStorage s else (localStorage s)(key \<mapsto> v))"
    by (rule multiSet_tiers(2) [OF assms(1)])
  show "cookie (snd (multiSet f key v s)) =
         (if cookie_set_fails f then cookie s else (cookie s)(key \<mapsto> v))"
    by (rule multiSet_tiers(3) [OF assms(1)])
  show "indexedDB (snd (multiSet f key v s)) =
         (if idb_down f s then indexedDB s else (indexedDB s)(key \<mapsto> v))"
    by (rule multiSet_tiers(4) [OF assms(1)])
  show "fst (multiRemove f key s) = Inr ()"
    by (rule multiRemove_tiers(1) [OF assms(3)])
  show "localStorage (snd (multiRemove f key s)) =
         (if ls_remove_throws f then localStorage s else (localStorage s)(key := None))"
    by (rule multiRemove_tiers(2) [OF assms(3)])
  show "cookie (snd (multiRemove f key s)) =
         (if cookie_delete_fails f then cookie s else (cookie s)(key := None))"
    by (rule multiRemove_tiers(3) [OF assms(3)])
  show "indexedDB (snd (multiRemove f key s)) =
         (if idb_down f s then indexedDB s else (indexedDB s)(key := None))"
    by (rule multiRemove_tiers(4) [OF assms(3)])
  show "fst (multiGet f key s) =
         Inr (if \<not> ls_get_throws f \<and> truthy (localStorage s key) then localStorage s key
              else if \<not> cookie_get_throws f \<and> truthy (cookie s key) then cookie s key
              else if idb_down f s then None else indexedDB s key)"
    by (rule multiGet_degraded [OF assms(2)])
  show "(fst (multiGet no_faults key (snd (multiSet f key v s))) = Inr (Some v)) =
          (\<not> (ls_set_throws f \<and> stale (localStorage s key) v)
           \<and> (v = [] \<longrightarrow>
                \<not> (cookie_set_fails f \<and> stale (cookie s key) v) \<and> \<not> idb_down f s))"
    if "failed_tiers f s \<le> 1"
    by (rule read_back [OF assms(1) that])
qed

theorem tier_failures_absorbed_witness:
  "\<not> idb_put_errors ls_full_faults \<and> \<not> idb_get_errors ls_full_faults
   \<and> \<not> idb_delete_errors ls_full_faults
   \<and> ls_set_throws ls_full_faults
   \<and> failed_tiers ls_full_faults cached_storage = 1
   \<and> fst (multiSet ls_full_faults ''auth_user'' ''{ann}'' cached_storage) = Inr ()
   \<and> cookie (snd (multiSet ls_full_faults ''auth_user'' ''{bob}'' cached_storage)) ''auth_user''
        = Some ''{bob}''
   \<and> indexedDB (snd (multiSet ls_full_faults ''auth_user'' ''{bob}'' cached_storage)) ''auth_user''
        = Some ''{bob}''
   \<and> fst (multiRemove ls_full_faults ''auth_user'' cached_storage) = Inr ()
   \<and> localStorage (snd (multiRemove ls_full_faults ''auth_user'' cached_storage)) ''auth_user''
        = None
   \<and> cookie (snd (multiRemove ls_full_faults ''auth_user'' cached_storage)) ''auth_user'' = None
   \<and> indexedDB (snd (multiRemove ls_full_faults ''auth_user'' cached_storage)) ''auth_user''
        = None
   \<and> fst (multiGet ls_full_faults ''auth_user'' cached_storage) = Inr (Some ''{ann}'')
   \<and> failed_tiers ls_full_faults fresh_storage = 1
   \<and> localStorage (snd (multiSet ls_full_faults ''k'' ''v'' fresh_storage)) ''k'' = None
   \<and> fst (multiGet no_faults ''k'' (snd (multiSet ls_full_faults ''k'' ''v'' fresh_storage)))
        = Inr (Some ''v'')"
proof -
  have h1: "\<not> idb_put_errors ls_full_faults" and h2: "\<not> idb_get_errors ls_full_faults"
    and h3: "\<not> idb_delete_errors ls_full_faults"
    by (simp_all add: ls_full_faults_def)
  have more: "ls_set_throws ls_full_faults" "\<not> cookie_set_fails ls_full_faults"
    "\<not> ls_remove_throws ls_full_faults" "\<not> cookie_delete_fails ls_full_faults"
    "\<not> ls_get_throws ls_full_faults"
    "\<not> idb_down ls_full_faults cached_storage"
    "failed_tiers ls_full_faults cached_storage = 1"
    "localStorage cached_storage ''auth_user'' = Some ''{ann}''"
    "failed_tiers ls_full_faults fresh_storage = 1"
    "\<not> stale (localStorage fresh_storage ''k'') ''v''"
    "localStorage fresh_storage ''k'' = None"
    by (simp_all add: ls_full_faults_def cached_storage_def fresh_storage_def failed_tiers_def
          idb_down_def stale_def truthy_def)
  show ?thesis
    using h1 h2 h3 more
      tier_failures_absorbed [OF h1 h2 h3, of "''auth_user''" "''{ann}''" cached_storage]
      tier_failures_absorbed [OF h1 h2 h3, of "''auth_user''" "''{bob}''" cached_storage]
      tier_failures_absorbed [OF h1 h2 h3, of "''k''" "''v''" fresh_storage]
    by (simp add: truthy_def)
qed

section \<open>Session: facts about the building blocks\<close>

lemma requests_append [simp]: "requests (xs @ ys) = requests xs @ requests ys"
  by (induction xs rule: requests.induct) simp_all

lemma requests_Notify [simp]: "requests (map (\<lambda>cb. Notify cb u) cbs) = []"
  by (induction cbs) simp_all

lemma getStorageKeys_cong [simp]:
  "getStorageKeys (w\<lparr>trace := t\<rparr>) = getStorageKeys w"
  "getStorageKeys (w\<lparr>store := st\<rparr>) = getStorageKeys w"
  "getStorageKeys (w\<lparr>accessToken := a\<rparr>) = getStorageKeys w"
  "getStorageKeys (w\<lparr>authStateCallbacks := c\<rparr>) = getStorageKeys w"
  by (simp_all add: getStorageKeys_def)

lemma getCurrentUserSync_cong [simp]:
  "getCurrentUserSync e (w\<lparr>trace := t\<rparr>) = getCurrentUserSync e w"
  "getCurrentUserSync e (w\<lparr>accessToken := a\<rparr>) = getCurrentUserSync e w"
  "getCurrentUserSync e (w\<lparr>authStateCallbacks := c\<rparr>) = getCurrentUserSync e w"
  by (simp_all add: getCurrentUserSync_def)

lemma refresh_request_cong [simp]: "refresh_request (w\<lparr>trace := t\<rparr>) = refresh_request w"
  by (simp add: refresh_request_def)

lemma logout_request_cong [simp]: "logout_request (w\<lparr>trace := t\<rparr>) tok = logout_request w tok"
  by (simp add: logout_request_def)

lemma initGoogleAuth_frame [simp]:
  "store (snd (initGoogleAuth e w)) = store w"
  "accessToken (snd (initGoogleAuth e w)) = accessToken w"
  "CONFIG (snd (initGoogleAuth e w)) = CONFIG w"
  "authStateCallbacks (snd (initGoogleAuth e w)) = authStateCallbacks w"
  "requests (trace (snd (initGoogleAuth e w))) = requests (trace w)"
  by (simp_all add: initGoogleAuth_def)

lemma signOut_frame [simp]:
  "accessToken (snd (signOut e w)) = None"
  "CONFIG (snd (signOut e w)) = CONFIG w"
  "authStateCallbacks (snd (signOut e w)) = authStateCallbacks w"
  "store (snd (signOut e w)) = snd (multiRemove (tier_faults e) (user (getStorageKeys w)) (store w))"
  by (simp_all add: signOut_def Let_def fetch_def notifyAuthStateChange_def
        split: prod.splits sum.splits)

lemma signOut_raises:
  "isl (fst (signOut e w)) \<longleftrightarrow>
     isl (fst (multiRemove (tier_faults e) (user (getStorageKeys w)) (store w)))"
  by (simp add: signOut_def Let_def split: prod.splits sum.splits)

lemma signOut_requests:
  "requests (trace (snd (signOut e w))) = requests (trace w) @
     (if \<not> isl (fst (signOut e w)) \<and> truthy (accessToken w)
      then [logout_request w (accessToken w)] else [])"
  by (simp add: signOut_def Let_def fetch_def notifyAuthStateChange_def logout_request_def
        split: prod.splits sum.splits option.splits)

lemma refreshToken_fails:
  assumes "refresh_fails (server e (requests (trace w)) (refresh_request w))"
  shows "fst (refreshToken e w) = False"
  using assms
  by (auto simp: refreshToken_def fetch_def refresh_fails_def split: outcome.splits payload.splits)

lemma refreshToken_frame [simp]:
  "CONFIG (snd (refreshToken e w)) = CONFIG w"
  "authStateCallbacks (snd (refreshToken e w)) = authStateCallbacks w"
  by (auto simp: refreshToken_def fetch_def split: outcome.splits payload.splits)

lemma refreshToken_store:
  "store (snd (refreshToken e w)) =
     (case server e (requests (trace w)) (refresh_request w) of
        Failed \<Rightarrow> store w
      | Responded r \<Rightarrow>
          if ok r then store w
          else snd (multiRemove (tier_faults e) (user (getStorageKeys w)) (store w)))"
  by (auto simp: refreshToken_def fetch_def split: outcome.splits payload.splits)

lemma refreshToken_requests:
  "requests (trace (snd (refreshToken e w))) = requests (trace w) @ refresh_request w #
     (case server e (requests (trace w)) (refresh_request w) of
        Failed \<Rightarrow> []
      | Responded r \<Rightarrow>
          if \<not> ok r \<and> truthy (accessToken w)
             \<and> \<not> isl (fst (multiRemove (tier_faults e) (user (getStorageKeys w)) (store w)))
          then [logout_request w (accessToken w)] else [])"
  by (auto simp: refreshToken_def fetch_def signOut_requests signOut_raises logout_request_def
        split: outcome.splits payload.splits)

section \<open>Session: start-up\<close>

text \<open>
  C6. For every state with no access token in memory in which the synchronous stores
  yield no cached identity, \<open>initializeAuth\<close> resolves to \<open>null\<close> and the list of requests
  sent is the one it started with: it calls \<open>fetch\<close> for no endpoint.
\<close>

theorem initializeAuth_fresh_browser:
  assumes "\<not> truthy (accessToken w)" and "getCurrentUserSync e w = None"
  shows "fst (initializeAuth e w) = None
     \<and> requests (trace (snd (initializeAuth e w))) = requests (trace w)"
  using assms by (simp add: initializeAuth_def)

theorem initializeAuth_fresh_browser_witness:
  "\<not> truthy (accessToken anonymous_world)
   \<and> getCurrentUserSync (env_of server_expired no_faults) anonymous_world = None
   \<and> fst (initializeAuth (env_of server_expired no_faults) anonymous_world) = None
   \<and> requests (trace (snd (initializeAuth (env_of server_expired no_faults) anonymous_world))) = []"
proof -
  have h1: "\<not> truthy (accessToken anonymous_world)"
    by (simp add: anonymous_world_def truthy_def)
  have h2: "getCurrentUserSync (env_of server_expired no_faults) anonymous_world = None"
    by (simp add: anonymous_world_def env_of_def fresh_storage_def getCurrentUserSync_def
          multiGetSync_def getItem_def getCookie_def truthy_def)
  have t: "trace anonymous_world = []" by (simp add: anonymous_world_def)
  show ?thesis
    using h1 h2 t initializeAuth_fresh_browser [OF h1 h2] by simp
qed

text \<open>
  The claim C3 says that every failure of the silent refresh clears the cached identity.
  When the \<open>fetch\<close> of the refresh is rejected (the network is down), \<open>initializeAuth\<close>
  resolves to \<open>null\<close> and the identity is still in all three tiers.
\<close>

theorem initializeAuth_offline_keeps_identity:
  "\<not> truthy (accessToken returning_world)
   \<and> getCurrentUserSync (env_of server_offline no_faults) returning_world = Some demo_user
   \<and> server (env_of server_offline no_faults) (requests (trace returning_world))
        (refresh_request returning_world) = Failed
   \<and> fst (initializeAuth (env_of server_offline no_faults) returning_world) = None
   \<and> localStorage (store (snd (initializeAuth (env_of server_offline no_faults) returning_world)))
        ''auth_user'' = Some ''{ann}''
   \<and> cookie (store (snd (initializeAuth (env_of server_offline no_faults) returning_world)))
        ''auth_user'' = Some ''{ann}''
   \<and> indexedDB (store (snd (initializeAuth (env_of server_offline no_faults) returning_world)))
        ''auth_user'' = Some ''{ann}''"
  by (simp add: demo_defs session_defs initializeAuth_def getItem_def getCookie_def)

text \<open>
  C3, amended. For every state with no access token in memory and a cached identity in
  synchronous storage, if the silent refresh fails in any way (network error, non-OK
  answer, or an answer without \<open>success\<close> and \<open>access_token\<close>), \<open>initializeAuth\<close> resolves
  to \<open>null\<close>. The cached identity is cleared only when the refresh endpoint answers with a
  non-OK status: then, with the storage tiers working, the key is gone from all three
  tiers. After a network error, or an OK answer without \<open>success\<close> and \<open>access_token\<close>,
  the stores are left as they were.
\<close>

theorem initializeAuth_refresh_failure:
  assumes "\<not> truthy (accessToken w)" and "getCurrentUserSync e w \<noteq> None"
    and "refresh_fails (server e (requests (trace w)) (refresh_request w))"
  shows "fst (initializeAuth e w) = None
    \<and> ((\<exists>r. server e (requests (trace w)) (refresh_request w) = Responded r \<and> \<not> ok r)
         \<and> tier_faults e = no_faults \<and> dbPromise (store w) \<noteq> Some False \<longrightarrow>
        localStorage (store (snd (initializeAuth e w))) (user (getStorageKeys w)) = None
        \<and> cookie (store (snd (initializeAuth e w))) (user (getStorageKeys w)) = None
        \<and> indexedDB (store (snd (initializeAuth e w))) (user (getStorageKeys w)) = None)
    \<and> (server e (requests (trace w)) (refresh_request w) = Failed
        \<or> (\<exists>r. server e (requests (trace w)) (refresh_request w) = Responded r \<and> ok r) \<longrightarrow>
        store (snd (initializeAuth e w)) = store w)"
proof -
  have "fst (refreshToken e w) = False" by (rule refreshToken_fails [OF assms(3)])
  then obtain w2 where r: "refreshToken e w = (False, w2)"
    by (cases "refreshToken e w") auto
  have st: "store w2 = store (snd (refreshToken e w))" using r by simp
  have init: "initializeAuth e w = (None, snd (initGoogleAuth e w2))"
    using assms(1,2) r by (auto simp: initializeAuth_def)
  show ?thesis
    using init st by (auto simp: refreshToken_store multiRemove_no_faults)
qed

theorem initializeAuth_refresh_failure_witness:
  "\<not> truthy (accessToken returning_world)
   \<and> getCurrentUserSync (env_of server_expired no_faults) returning_world = Some demo_user
   \<and> server (env_of server_expired no_faults) (requests (trace returning_world))
        (refresh_request returning_world) = Responded \<lparr>status = 401, payload = NoJson\<rparr>
   \<and> fst (initializeAuth (env_of server_expired no_faults) returning_world) = None
   \<and> localStorage (store (snd (initializeAuth (env_of server_expired no_faults) returning_world)))
        ''auth_user'' = None
   \<and> cookie (store (snd (initializeAuth (env_of server_expired no_faults) returning_world)))
        ''auth_user'' = None
   \<and> indexedDB (store (snd (initializeAuth (env_of server_expired no_faults) returning_world)))
        ''auth_user'' = None"
proof -
  let ?e = "env_of server_expired no_faults"
  have h1: "\<not> truthy (accessToken returning_world)"
    by (simp add: returning_world_def anonymous_world_def truthy_def)
  have u: "getCurrentUserSync ?e returning_world = Some demo_user"
    by (simp add: demo_defs session_defs getItem_def)
  then have h2: "getCurrentUserSync ?e returning_world \<noteq> None" by simp
  have sv: "server ?e (requests (trace returning_world)) (refresh_request returning_world)
      = Responded \<lparr>status = 401, payload = NoJson\<rparr>"
    by (simp add: env_of_def server_expired_def)
  have h3: "refresh_fails (server ?e (requests (trace returning_world))
      (refresh_request returning_world))"
    by (simp add: sv refresh_fails_def ok_def)
  have nok: "\<not> ok \<lparr>status = 401, payload = NoJson\<rparr>" by (simp add: ok_def)
  have tf: "tier_faults ?e = no_faults" by (simp add: env_of_def)
  have db: "dbPromise (store returning_world) \<noteq> Some False"
    by (simp add: returning_world_def cached_storage_def)
  have key: "user (getStorageKeys returning_world) = ''auth_user''"
    by (simp add: demo_defs session_defs)
  show ?thesis
    using h1 u sv nok tf db key initializeAuth_refresh_failure [OF h1 h2 h3]
    by simp
qed

section \<open>Session: sign-out\<close>

text \<open>
  When \<open>multiRemove\<close> does not reject, \<open>signOut\<close> resolves whatever the server does with
  the logout request: the first thing it does is to clear the token, and every subscriber
  is called with \<open>null\<close>, after the removal, the provider calls and the logout request.
\<close>

lemma signOut_completes:
  assumes "\<not> idb_delete_errors (tier_faults e)"
  shows "fst (signOut e w) = Inr ()"
  using assms signOut_raises [of e w]
    multiRemove_raises [of "tier_faults e" "user (getStorageKeys w)" "store w"]
  by (cases "fst (signOut e w)") auto

lemma signOut_clears_token_first:
  "\<exists>rest. trace (snd (signOut e w)) = trace w @ SetAccessToken None # rest"
  by (simp add: signOut_def Let_def fetch_def notifyAuthStateChange_def initGoogleAuth_def
        split: prod.splits sum.splits)

lemma signOut_broadcasts:
  assumes "\<not> isl (fst (signOut e w))"
  shows "\<exists>mid post. trace (snd (signOut e w)) =
      trace w @ SetAccessToken None # mid @ map (\<lambda>cb. Notify cb None) (authStateCallbacks w) @ post
      \<and> (\<forall>cb u. Notify cb u \<notin> set mid)"
proof -
  obtain st where mr:
    "multiRemove (tier_faults e) (user (getStorageKeys w)) (store w) = (Inr (), st)"
    using assms
    by (cases "multiRemove (tier_faults e) (user (getStorageKeys w)) (store w)")
       (auto simp: signOut_def Let_def split: sum.splits)
  define mid where "mid = MultiRemove (user (getStorageKeys w)) #
     (if google_loaded e then DisableAutoSelect #
        (case getCurrentUserSync e w of None \<Rightarrow> []
         | Some usr \<Rightarrow> if email usr \<noteq> [] then [Revoke (email usr)] else []) else []) @
     (if truthy (accessToken w) then [Fetch (logout_request w (accessToken w))] else [])"
  have nomid: "\<forall>cb u. Notify cb u \<notin> set mid"
    by (auto simp: mid_def split: option.splits)
  have "\<exists>post. trace (snd (signOut e w)) =
      trace w @ SetAccessToken None # mid @ map (\<lambda>cb. Notify cb None) (authStateCallbacks w) @ post"
    using mr
    by (simp add: signOut_def Let_def fetch_def notifyAuthStateChange_def initGoogleAuth_def
          logout_request_def mid_def)
  with nomid show ?thesis by blast
qed

lemma signOut_offline_broadcasts:
  "fst (signOut (env_of server_offline no_faults) signed_in_world) = Inr ()
   \<and> trace (snd (signOut (env_of server_offline no_faults) signed_in_world)) =
       [SetAccessToken None, MultiRemove ''auth_user'', DisableAutoSelect,
        Revoke ''ann@example.org'',
        Fetch \<lparr>url = ''https://api/auth/logout'', http_method = ''POST'',
               authorization = Some ''Bearer tok''\<rparr>,
        Notify 1 None, Notify 2 None, Initialize ''client'']"
  by (simp add: demo_defs session_defs tier_defs)

text \<open>
  C5 holds in every run in which \<open>multiRemove\<close> resolves (the three lemmas above). It fails
  in this run: the user is signed in, two callbacks are subscribed, and the \<open>delete\<close>
  request of IndexedDB errors. \<open>deleteIndexedDB\<close> returns the request promise without
  \<open>await\<close>, the rejection passes its \<open>catch\<close>, \<open>multiRemove\<close> rejects, and \<open>signOut\<close> ends at
  \<open>await multiRemove(...)\<close>: the token is cleared, and no callback is called.
\<close>

theorem signOut_aborts_before_broadcast:
  "authStateCallbacks signed_in_world = [1, 2]
   \<and> fst (signOut (env_of server_offline delete_error_faults) signed_in_world)
       = Inl IDBRequestError
   \<and> accessToken (snd (signOut (env_of server_offline delete_error_faults) signed_in_world))
       = None
   \<and> trace (snd (signOut (env_of server_offline delete_error_faults) signed_in_world))
       = [SetAccessToken None, MultiRemove ''auth_user'']"
  by (simp add: demo_defs session_defs tier_defs)

section \<open>Session: authenticated requests\<close>

text \<open>
  The two branches of the 401 handling. When the refresh succeeds, the calls are: the
  request, one refresh, the request again with the new token; the result is the outcome
  of the retry. When the refresh fails and \<open>signOut\<close> resolves, the result is the first
  answer, the token is gone, the refresh endpoint was called once, and every subscriber
  was called with \<open>null\<close>.
\<close>

lemma authenticatedFetch_refreshed:
  assumes "truthy (accessToken w)"
    and "server e (requests (trace w)) (bearer_request u options (accessToken w)) = Responded r"
    and "status r = 401"
    and "server e (requests (trace w) @ [bearer_request u options (accessToken w)])
           (refresh_request w) = Responded rr"
    and "ok rr" and "payload rr = Json True (Some t) uid em nm pic" and "t \<noteq> []"
  shows "authenticatedFetch e u options w =
     (settle (server e
                (requests (trace w) @ [bearer_request u options (accessToken w), refresh_request w])
                (bearer_request u options (Some t))),
      w\<lparr>accessToken := Some t,
        trace := trace w @ [Fetch (bearer_request u options (accessToken w)),
                  Fetch (refresh_request w), SetAccessToken (Some t),
                  Fetch (bearer_request u options (Some t))]\<rparr>)"
  using assms
  by (simp add: authenticatedFetch_def getAccessToken_def fetch_def refreshToken_def Let_def
        bearer_request_def truthy_def template_null_def)

lemma authenticatedFetch_refresh_failed:
  assumes "truthy (accessToken w)"
    and "server e (requests (trace w)) (bearer_request u options (accessToken w)) = Responded r"
    and "status r = 401"
    and "refresh_fails (server e (requests (trace w) @ [bearer_request u options (accessToken w)])
           (refresh_request w))"
    and "\<not> idb_delete_errors (tier_faults e)"
  shows "fst (authenticatedFetch e u options w) = Inr r"
    and "accessToken (snd (authenticatedFetch e u options w)) = None"
    and "length (filter (\<lambda>q. q = refresh_request w)
                  (requests (trace (snd (authenticatedFetch e u options w)))))
         = Suc (length (filter (\<lambda>q. q = refresh_request w) (requests (trace w))))"
proof -
  let ?req = "bearer_request u options (accessToken w)"
  let ?w1 = "w\<lparr>trace := trace w @ [Fetch ?req]\<rparr>"
  have f1: "fetch e ?req w = (Responded r, ?w1)" using assms(2) by (simp add: fetch_def)
  have "fst (refreshToken e ?w1) = False"
    by (rule refreshToken_fails) (use assms(4) in simp)
  then obtain w2 where r2: "refreshToken e ?w1 = (False, w2)"
    by (cases "refreshToken e ?w1") auto
  have "fst (signOut e w2) = Inr ()" by (rule signOut_completes [OF assms(5)])
  then obtain w3 where s3: "signOut e w2 = (Inr (), w3)" by (cases "signOut e w2") auto
  have res: "authenticatedFetch e u options w = (Inr r, w3)"
    using f1 r2 s3 assms(1,3) by (simp add: authenticatedFetch_def getAccessToken_def Let_def)
  show "fst (authenticatedFetch e u options w) = Inr r" using res by simp
  have w3: "w3 = snd (signOut e w2)" using s3 by simp
  show "accessToken (snd (authenticatedFetch e u options w)) = None"
    using res w3 by simp
  have w2: "w2 = snd (refreshToken e ?w1)" using r2 by simp
  have neq1: "?req \<noteq> refresh_request w"
    using assms(1) by (auto simp: bearer_request_def refresh_request_def)
  have neq2: "\<And>tok. logout_request w tok \<noteq> refresh_request w"
    by (auto simp: logout_request_def refresh_request_def)
  have lo2: "\<And>tok. logout_request w2 tok = logout_request w tok"
    unfolding w2 by (simp add: logout_request_def)
  show "length (filter (\<lambda>q. q = refresh_request w)
                  (requests (trace (snd (authenticatedFetch e u options w)))))
         = Suc (length (filter (\<lambda>q. q = refresh_request w) (requests (trace w))))"
    unfolding res snd_conv w3 signOut_requests lo2
    unfolding w2 refreshToken_requests
    using neq1 neq2 by (auto split: outcome.splits)
qed

lemma authenticatedFetch_refresh_failed_broadcast:
  assumes "truthy (accessToken w)"
    and "server e (requests (trace w)) (bearer_request u options (accessToken w)) = Responded r"
    and "status r = 401"
    and "refresh_fails (server e (requests (trace w) @ [bearer_request u options (accessToken w)])
           (refresh_request w))"
    and "\<not> idb_delete_errors (tier_faults e)"
  shows "\<exists>pre post. trace (snd (authenticatedFetch e u options w)) =
           pre @ map (\<lambda>cb. Notify cb None) (authStateCallbacks w) @ post"
proof -
  let ?req = "bearer_request u options (accessToken w)"
  let ?w1 = "w\<lparr>trace := trace w @ [Fetch ?req]\<rparr>"
  have f1: "fetch e ?req w = (Responded r, ?w1)" using assms(2) by (simp add: fetch_def)
  have "fst (refreshToken e ?w1) = False"
    by (rule refreshToken_fails) (use assms(4) in simp)
  then obtain w2 where r2: "refreshToken e ?w1 = (False, w2)"
    by (cases "refreshToken e ?w1") auto
  have so: "fst (signOut e w2) = Inr ()" by (rule signOut_completes [OF assms(5)])
  then obtain w3 where s3: "signOut e w2 = (Inr (), w3)" by (cases "signOut e w2") auto
  have res: "authenticatedFetch e u options w = (Inr r, w3)"
    using f1 r2 s3 assms(1,3) by (simp add: authenticatedFetch_def getAccessToken_def Let_def)
  have cbs: "authStateCallbacks w2 = authStateCallbacks w"
    using refreshToken_frame(2) [of e ?w1] r2 by simp
  from signOut_broadcasts [of e w2] so obtain mid post where
    "trace (snd (signOut e w2)) =
       trace w2 @ SetAccessToken None # mid @ map (\<lambda>cb. Notify cb None) (authStateCallbacks w2) @ post"
    by auto
  then have "trace (snd (authenticatedFetch e u options w)) =
       (trace w2 @ SetAccessToken None # mid) @ map (\<lambda>cb. Notify cb None) (authStateCallbacks w) @ post"
    using res s3 cbs by simp
  then show ?thesis by blast
qed

lemma authenticatedFetch_401_then_200:
  "authenticatedFetch (env_of server_once_401 no_faults) ''https://api/data'' get_options
     signed_in_world =
   (Inr \<lparr>status = 200, payload = NoJson\<rparr>,
    signed_in_world\<lparr>accessToken := Some ''new'',
      trace := [Fetch \<lparr>url = ''https://api/data'', http_method = ''GET'',
                       authorization = Some ''Bearer tok''\<rparr>,
                Fetch \<lparr>url = ''https://api/auth/refresh'', http_method = ''POST'',
                       authorization = None\<rparr>,
                SetAccessToken (Some ''new''),
                Fetch \<lparr>url = ''https://api/data'', http_method = ''GET'',
                       authorization = Some ''Bearer new''\<rparr>]\<rparr>)"
  by (simp add: demo_defs session_defs authenticatedFetch_def)

text \<open>
  C1 holds in every run in which \<open>signOut\<close> resolves (the three lemmas above). It fails in
  this run: a token is in memory, the request and the refresh are both answered with 401,
  and the \<open>delete\<close> request of IndexedDB errors. The \<open>signOut\<close> inside \<open>refreshToken\<close> rejects
  and is caught there; the \<open>await signOut()\<close> of \<open>authenticatedFetch\<close> is outside any
  \<open>try\<close> and rejects again, so the call rejects with the storage error and the caller
  does not get the 401 answer.
\<close>

theorem authenticatedFetch_rejects_on_delete_error:
  "truthy (accessToken signed_in_world)
   \<and> server (env_of server_expired delete_error_faults) (requests (trace signed_in_world))
        (bearer_request ''https://api/data'' get_options (accessToken signed_in_world))
       = Responded \<lparr>status = 401, payload = NoJson\<rparr>
   \<and> fst (authenticatedFetch (env_of server_expired delete_error_faults) ''https://api/data''
        get_options signed_in_world) = Inl IDBRequestError"
  by (simp add: demo_defs session_defs tier_defs authenticatedFetch_def)

section \<open>Session: subscriptions\<close>






lemma trace_fold_unsubscribe [simp]: "trace (fold unsubscribe us w) = trace w"
  by (induction us arbitrary: w) (simp_all add: unsubscribe_def)

lemma trace_subscribe_all [simp]: "trace (subscribe_all cbs w) = trace w"
  unfolding subscribe_all_def
  by (induction cbs arbitrary: w) (simp_all add: onAuthStateChange_def)



section \<open>Session: configuration\<close>

lemma nonempty_prefixes_Cons:
  "nonempty_prefixes (c # cfgs) =
     (if truthy (storagePrefix c) then the (storagePrefix c) # nonempty_prefixes cfgs
      else nonempty_prefixes cfgs)"
  by (cases "storagePrefix c") (simp_all add: nonempty_prefixes_def List.map_filter_simps truthy_def)

lemma storagePrefix_configure:
  "storagePrefix (CONFIG (configureGoogleAuth c w)) =
     (if truthy (storagePrefix c) then storagePrefix c else storagePrefix (CONFIG w))"
  by (simp add: configureGoogleAuth_def)

lemma prefix_after_configuring:
  "storagePrefix (CONFIG (fold configureGoogleAuth cfgs w)) =
     (if nonempty_prefixes cfgs = [] then storagePrefix (CONFIG w)
      else Some (last (nonempty_prefixes cfgs)))"
proof (induction cfgs arbitrary: w)
  case Nil
  show ?case by (simp add: nonempty_prefixes_def List.map_filter_simps)
next
  case (Cons c cfgs)
  have step: "storagePrefix (CONFIG (fold configureGoogleAuth (c # cfgs) w)) =
     (if nonempty_prefixes cfgs = [] then storagePrefix (CONFIG (configureGoogleAuth c w))
      else Some (last (nonempty_prefixes cfgs)))"
    using Cons.IH [of "configureGoogleAuth c w"] by simp
  show ?case
    unfolding step storagePrefix_configure nonempty_prefixes_Cons
    by (cases "storagePrefix c") (auto simp: truthy_def)
qed

text \<open>
  The claim C10 says that the effective prefix is the one of the most recent call that
  supplied one. A call that supplies the empty string as \<open>storagePrefix\<close> is ignored like
  one that omits it: after \<open>custom\<close> and then the empty string, the keys still start with
  \<open>custom\<close>.
\<close>

theorem configure_empty_prefix_ignored:
  "storagePrefix empty_prefix_config = Some []
   \<and> storagePrefix (CONFIG (fold configureGoogleAuth [custom_config, empty_prefix_config]
        anonymous_world)) = Some ''custom''
   \<and> user (getStorageKeys (fold configureGoogleAuth [custom_config, empty_prefix_config]
        anonymous_world)) = ''custom_user''"
  by (simp add: demo_defs configureGoogleAuth_def getStorageKeys_def template_undefined_def
        truthy_def)

text \<open>
  C10, amended. After any sequence of \<open>configureGoogleAuth\<close> calls on the initial
  configuration, the effective storage prefix is the \<open>storagePrefix\<close> of the most recent
  call that supplied a non-empty one, or \<open>auth\<close> if none did; a call whose config omits
  \<open>storagePrefix\<close> (or gives the empty string) keeps the prefix configured before, and the
  derived keys are the prefix followed by \<open>_user\<close> and \<open>_avatar_cache\<close>.
\<close>

theorem configured_prefix:
  assumes "storagePrefix (CONFIG w) = Some ''auth''"
  shows "storagePrefix (CONFIG (fold configureGoogleAuth cfgs w)) = Some (effective_prefix cfgs)
     \<and> user (getStorageKeys (fold configureGoogleAuth cfgs w)) = effective_prefix cfgs @ ''_user''
     \<and> getAvatarCacheKey (fold configureGoogleAuth cfgs w)
         = effective_prefix cfgs @ ''_avatar_cache''
     \<and> storagePrefix (CONFIG (fold configureGoogleAuth (cfgs @ [c\<lparr>storagePrefix := None\<rparr>]) w))
         = storagePrefix (CONFIG (fold configureGoogleAuth cfgs w))"
proof -
  have p: "storagePrefix (CONFIG (fold configureGoogleAuth cfgs w)) = Some (effective_prefix cfgs)"
    using assms by (simp add: prefix_after_configuring effective_prefix_def)
  have q: "storagePrefix (CONFIG (fold configureGoogleAuth (cfgs @ [c\<lparr>storagePrefix := None\<rparr>]) w))
         = storagePrefix (CONFIG (fold configureGoogleAuth cfgs w))"
    by (simp add: storagePrefix_configure truthy_def)
  show ?thesis
    using p q
    by (simp add: getAvatarCacheKey_def getStorageKeys_def template_undefined_def)
qed

theorem configured_prefix_witness:
  "storagePrefix (CONFIG anonymous_world) = Some ''auth''
   \<and> effective_prefix [custom_config, omitting_config] = ''custom''
   \<and> storagePrefix (CONFIG (fold configureGoogleAuth [custom_config, omitting_config]
        anonymous_world)) = Some ''custom''
   \<and> user (getStorageKeys (fold configureGoogleAuth [custom_config, omitting_config]
        anonymous_world)) = ''custom_user''
   \<and> getAvatarCacheKey (fold configureGoogleAuth [custom_config, omitting_config]
        anonymous_world) = ''custom_avatar_cache''"
proof -
  have h: "storagePrefix (CONFIG anonymous_world) = Some ''auth''"
    by (simp add: anonymous_world_def demo_CONFIG_def)
  have ep: "effective_prefix [custom_config, omitting_config] = ''custom''"
    by (simp add: effective_prefix_def nonempty_prefixes_def List.map_filter_simps
          custom_config_def omitting_config_def)
  show ?thesis
    using h ep configured_prefix [OF h, of "[custom_config, omitting_config]" omitting_config]
    by simp
qed

end
